theory Spec2Isabelle
  imports Main
begin

section \<open>Calendar dates and their text form\<close>

text \<open>
  The program is one class, \<open>DiaryApp\<close> (src/main.cpp), whose slots read the selected
  \<open>QDate\<close> of a calendar widget, turn it into text with the format \<open>yyyy-MM-dd\<close> and
  run one SQL statement on the table \<open>diary\<close>. A \<open>QDate\<close> is modelled by its year, month
  and day. The model covers the years 1 to 9999, the years that the four-digit field of
  the format holds; a null or invalid \<open>QDate\<close> is \<open>None\<close> of type \<open>qdate option\<close>.
\<close>

datatype qdate = QDate (year: nat) (month: nat) (day: nat)

definition isLeapYear :: "nat \<Rightarrow> bool" where
  "isLeapYear y = (y mod 4 = 0 \<and> (y mod 100 \<noteq> 0 \<or> y mod 400 = 0))"

definition daysInMonth :: "nat \<Rightarrow> nat \<Rightarrow> nat" where
  "daysInMonth y m =
     (if m = 2 then (if isLeapYear y then 29 else 28)
      else if m = 4 \<or> m = 6 \<or> m = 9 \<or> m = 11 then 30
      else 31)"

fun isValid :: "qdate \<Rightarrow> bool" where
  "isValid (QDate y m d) =
     (1 \<le> y \<and> y \<le> 9999 \<and> 1 \<le> m \<and> m \<le> 12 \<and> 1 \<le> d \<and> d \<le> daysInMonth y m)"

text \<open>The decimal digit of the units of \<open>n\<close>, and the value of a digit character.\<close>

definition digit :: "nat \<Rightarrow> char" where
  "digit n = ''0123456789'' ! (n mod 10)"

definition digit_val :: "char \<Rightarrow> nat option" where
  "digit_val c =
     map_of [(CHR ''0'', 0), (CHR ''1'', 1), (CHR ''2'', 2), (CHR ''3'', 3), (CHR ''4'', 4),
             (CHR ''5'', 5), (CHR ''6'', 6), (CHR ''7'', 7), (CHR ''8'', 8), (CHR ''9'', 9)] c"

text \<open>\<open>date.toString("yyyy-MM-dd")\<close>: four digits of the year, two of the month, two of
  the day, zero-padded, with hyphens between.\<close>

fun toString :: "qdate \<Rightarrow> string" where
  "toString (QDate y m d) =
     [digit (y div 1000), digit (y div 100), digit (y div 10), digit y, CHR ''-'',
      digit (m div 10), digit m, CHR ''-'',
      digit (d div 10), digit d]"

text \<open>A run of digit characters read as a decimal number; \<open>None\<close> at any other character.\<close>

fun number :: "nat \<Rightarrow> string \<Rightarrow> nat option" where
  "number n [] = Some n"
| "number n (c # cs) =
     (case digit_val c of None \<Rightarrow> None | Some v \<Rightarrow> number (10 * n + v) cs)"

text \<open>\<open>QDate::fromString(dateString, "yyyy-MM-dd")\<close>: the date that the text denotes, and
  the null date when the text does not have the form or names no valid date.\<close>

definition fromString :: "string \<Rightarrow> qdate option" where
  "fromString s =
     (if length s = 10 \<and> s ! 4 = CHR ''-'' \<and> s ! 7 = CHR ''-'' then
        (case (number 0 (take 4 s), number 0 (take 2 (drop 5 s)), number 0 (drop 8 s)) of
           (Some y, Some m, Some d) \<Rightarrow>
             (if isValid (QDate y m d) then Some (QDate y m d) else None)
         | _ \<Rightarrow> None)
      else None)"

section \<open>The table \<open>diary\<close> and the statements run on it\<close>

text \<open>
  The constructor creates
  \<^verbatim>\<open>diary (id INTEGER PRIMARY KEY AUTOINCREMENT, date DATE, entry TEXT)\<close>:
  no column but \<open>id\<close> is unique. The table is the list of its rows in the order of their
  \<open>id\<close>, which is the order of insertion and the order in which a scan returns them.
  \<open>AUTOINCREMENT\<close> keeps the largest \<open>id\<close> ever given in \<open>sqlite_sequence\<close>.
  The text of a date is no number, so the column \<open>date\<close> stores it as text and the
  comparison \<open>date = :date\<close> is equality of texts. An entry is read with
  \<open>value(0).toString()\<close>, which gives the empty text also for a stored null: the
  column \<open>entry\<close> is a text in every row.
\<close>

record diary_row =
  diary_id :: nat
  diary_date :: string
  diary_entry :: string

record database =
  diary :: "diary_row list"
  sqlite_sequence :: nat

text \<open>
  Each statement takes a flag \<open>ok\<close> from the environment: whether the engine executes
  it. \<open>ok = False\<close> stands for every failure of \<open>query.exec()\<close> (an I/O error, a locked
  file, a missing table); a failed statement changes nothing, as the engine runs each
  statement atomically. Each returns what \<open>exec()\<close> returns, with the database or the
  result set.
\<close>

definition insert_diary :: "bool \<Rightarrow> string \<Rightarrow> string \<Rightarrow> database \<Rightarrow> bool \<times> database" where
  \<comment> \<open>\<open>INSERT INTO diary (date, entry) VALUES (:date, :entry)\<close>\<close>
  "insert_diary ok dateString entryText dbs =
     (if ok then
        (let n = Suc (fold max (map diary_id (diary dbs)) (sqlite_sequence dbs))
         in (True, dbs\<lparr>diary := diary dbs @
                        [\<lparr>diary_id = n, diary_date = dateString, diary_entry = entryText\<rparr>],
                      sqlite_sequence := n\<rparr>))
      else (False, dbs))"

definition update_diary :: "bool \<Rightarrow> string \<Rightarrow> string \<Rightarrow> database \<Rightarrow> bool \<times> database" where
  \<comment> \<open>\<open>UPDATE diary SET entry = :entry WHERE date = :date\<close>\<close>
  "update_diary ok entryText dateString dbs =
     (if ok then
        (True, dbs\<lparr>diary := map (\<lambda>r. if diary_date r = dateString
                                     then r\<lparr>diary_entry := entryText\<rparr> else r) (diary dbs)\<rparr>)
      else (False, dbs))"

definition delete_diary :: "bool \<Rightarrow> string \<Rightarrow> database \<Rightarrow> bool \<times> database" where
  \<comment> \<open>\<open>DELETE FROM diary WHERE date = :date\<close>\<close>
  "delete_diary ok dateString dbs =
     (if ok then (True, dbs\<lparr>diary := filter (\<lambda>r. diary_date r \<noteq> dateString) (diary dbs)\<rparr>)
      else (False, dbs))"

definition select_entry :: "bool \<Rightarrow> string \<Rightarrow> database \<Rightarrow> bool \<times> string list" where
  \<comment> \<open>\<open>SELECT entry FROM diary WHERE date = :date\<close>\<close>
  "select_entry ok dateString dbs =
     (if ok then (True, map diary_entry (filter (\<lambda>r. diary_date r = dateString) (diary dbs)))
      else (False, []))"

definition select_date :: "bool \<Rightarrow> database \<Rightarrow> bool \<times> string list" where
  \<comment> \<open>\<open>SELECT date FROM diary\<close>\<close>
  "select_date ok dbs = (if ok then (True, map diary_date (diary dbs)) else (False, []))"

section \<open>The application\<close>

text \<open>
  The state that the slots read and write: the database behind the default connection,
  the date selected in the calendar widget, the text of the edit box, the text formats
  that the calendar widget holds per date, and the lines written to \<open>qDebug()\<close>.
\<close>

datatype format = DefaultFormat | GreenBackground

datatype debug_line =
    Error_inserting | Added_for string
  | Error_updating | Updated_for string
  | Error_removing | Removed_for string

datatype StandardButton = Yes | No

record app =
  diary_db :: database
  selectedDate :: qdate
  entryTextEdit :: string
  dateTextFormat :: "qdate \<rightharpoonup> format"
  qDebug :: "debug_line list"

text \<open>\<open>QCalendarWidget::setDateTextFormat\<close>: a null date clears every format, any other
  date gets the format.\<close>

fun setDateTextFormat :: "qdate option \<Rightarrow> format \<Rightarrow> (qdate \<rightharpoonup> format) \<Rightarrow> (qdate \<rightharpoonup> format)" where
  "setDateTextFormat None f fm = Map.empty"
| "setDateTextFormat (Some d) f fm = fm(d \<mapsto> f)"

text \<open>\<open>highlightDaysWithEntries\<close>: reset all formats, then give every date that the
  query returns the green format. A query that fails returns no row.\<close>

definition highlightDaysWithEntries :: "bool \<Rightarrow> app \<Rightarrow> app" where
  "highlightDaysWithEntries ok s =
     (let reset = setDateTextFormat None DefaultFormat (dateTextFormat s);
          (executed, dates) = select_date ok (diary_db s)
      in s\<lparr>dateTextFormat :=
             fold (\<lambda>dateString. setDateTextFormat (fromString dateString) GreenBackground)
               dates reset\<rparr>)"

text \<open>The read of \<open>showEntry\<close>: \<open>query.exec() && query.next()\<close>, then \<open>query.value(0)\<close>,
  the entry of the first row for the date.\<close>

definition get_entry :: "bool \<Rightarrow> qdate \<Rightarrow> database \<Rightarrow> string option" where
  "get_entry ok date dbs =
     (let dateString = toString date
      in case select_entry ok dateString dbs of
           (True, entry # _) \<Rightarrow> Some entry
         | _ \<Rightarrow> None)"

definition showEntry :: "bool \<Rightarrow> qdate \<Rightarrow> app \<Rightarrow> app" where
  "showEntry ok date s =
     (case get_entry ok date (diary_db s) of
        Some entry \<Rightarrow> s\<lparr>entryTextEdit := entry\<rparr>
      | None \<Rightarrow> s\<lparr>entryTextEdit := ''''\<rparr>)"

text \<open>The three writing slots. Each takes the flag of its own statement and the flag of
  the query of \<open>highlightDaysWithEntries\<close>, which runs only after a statement that
  executed.\<close>

definition addEntry :: "bool \<Rightarrow> bool \<Rightarrow> app \<Rightarrow> app" where
  "addEntry ok ok_dates s =
     (let currentDate = selectedDate s;
          dateString = toString currentDate;
          entryText = entryTextEdit s;
          (executed, dbs) = insert_diary ok dateString entryText (diary_db s);
          s1 = s\<lparr>diary_db := dbs\<rparr>
      in if \<not> executed then s1\<lparr>qDebug := qDebug s1 @ [Error_inserting]\<rparr>
         else highlightDaysWithEntries ok_dates
                (s1\<lparr>qDebug := qDebug s1 @ [Added_for dateString]\<rparr>))"

definition updateEntry :: "bool \<Rightarrow> bool \<Rightarrow> app \<Rightarrow> app" where
  "updateEntry ok ok_dates s =
     (let currentDate = selectedDate s;
          dateString = toString currentDate;
          updatedEntryText = entryTextEdit s;
          (executed, dbs) = update_diary ok updatedEntryText dateString (diary_db s);
          s1 = s\<lparr>diary_db := dbs\<rparr>
      in if \<not> executed then s1\<lparr>qDebug := qDebug s1 @ [Error_updating]\<rparr>
         else highlightDaysWithEntries ok_dates
                (s1\<lparr>qDebug := qDebug s1 @ [Updated_for dateString]\<rparr>))"

definition removeEntry :: "bool \<Rightarrow> bool \<Rightarrow> app \<Rightarrow> app" where
  "removeEntry ok ok_dates s =
     (let currentDate = selectedDate s;
          dateString = toString currentDate;
          (executed, dbs) = delete_diary ok dateString (diary_db s);
          s1 = s\<lparr>diary_db := dbs\<rparr>
      in if \<not> executed then s1\<lparr>qDebug := qDebug s1 @ [Error_removing]\<rparr>
         else highlightDaysWithEntries ok_dates
                (s1\<lparr>qDebug := qDebug s1 @ [Removed_for dateString]\<rparr>))"

definition confirmRemoveEntry :: "StandardButton \<Rightarrow> bool \<Rightarrow> bool \<Rightarrow> app \<Rightarrow> app" where
  "confirmRemoveEntry reply ok ok_dates s =
     (if reply = Yes then removeEntry ok ok_dates s else s)"

text \<open>
  The constructor. \<open>file\<close> is the content of \<open>diary.db\<close> as earlier runs left it, the
  empty table on the first run (\<open>CREATE TABLE IF NOT EXISTS\<close> leaves an existing table
  as it is, and its result is not read). When the database does not open, the constructor
  returns before it makes a widget or connects a slot: there is no application state.
  A new calendar widget selects the current date, \<open>today\<close>.
\<close>

definition DiaryApp :: "bool \<Rightarrow> bool \<Rightarrow> qdate \<Rightarrow> database \<Rightarrow> app option" where
  "DiaryApp opened ok_dates today file =
     (if \<not> opened then None
      else Some (highlightDaysWithEntries ok_dates
                   \<lparr>diary_db = file, selectedDate = today, entryTextEdit = '''',
                    dateTextFormat = Map.empty, qDebug = []\<rparr>))"

definition no_diary :: database where
  "no_diary = \<lparr>diary = [], sqlite_sequence = 0\<rparr>"

text \<open>
  The states that the application reaches: it starts on an empty table or on the table
  that an earlier run left; the user selects a valid date, activates the selected date
  (which runs \<open>showEntry\<close>), types into the edit box, and clicks one of the three buttons.
\<close>

inductive reachable :: "app \<Rightarrow> bool" where
  first_run: "isValid today \<Longrightarrow> DiaryApp True ok_dates today no_diary = Some s \<Longrightarrow> reachable s"
| next_run: "reachable s0 \<Longrightarrow> isValid today \<Longrightarrow>
     DiaryApp True ok_dates today (diary_db s0) = Some s \<Longrightarrow> reachable s"
| selected: "reachable s \<Longrightarrow> isValid d \<Longrightarrow> reachable (s\<lparr>selectedDate := d\<rparr>)"
| activated: "reachable s \<Longrightarrow> reachable (showEntry ok (selectedDate s) s)"
| typed: "reachable s \<Longrightarrow> reachable (s\<lparr>entryTextEdit := t\<rparr>)"
| add_clicked: "reachable s \<Longrightarrow> reachable (addEntry ok ok_dates s)"
| update_clicked: "reachable s \<Longrightarrow> reachable (updateEntry ok ok_dates s)"
| remove_clicked: "reachable s \<Longrightarrow> reachable (confirmRemoveEntry reply ok ok_dates s)"

section \<open>Predicates of the claims and example states\<close>

text \<open>A text that is the \<open>yyyy-MM-dd\<close> form of a valid date: it reads back as a date whose
  text it is.\<close>

definition date_text :: "string \<Rightarrow> bool" where
  "date_text str = (case fromString str of None \<Rightarrow> False | Some d \<Rightarrow> toString d = str)"

text \<open>The dates (as stored text) that have a row, and the property that no two rows
  have the same date.\<close>

definition dates_with_rows :: "database \<Rightarrow> string set" where
  "dates_with_rows dbs = set (map diary_date (diary dbs))"

definition one_entry_per_date :: "database \<Rightarrow> bool" where
  "one_entry_per_date dbs = distinct (map diary_date (diary dbs))"

text \<open>What every reachable state satisfies: the selected date is valid and every stored
  date is the text of a valid date.\<close>

definition well_formed :: "app \<Rightarrow> bool" where
  "well_formed s =
     (isValid (selectedDate s) \<and> list_all date_text (map diary_date (diary (diary_db s))))"

text \<open>Example states: the first start on 2024-03-01, and that state after the user
  typed \<open>Hello\<close> and clicked Add.\<close>

definition started :: app where
  "started = \<lparr>diary_db = no_diary, selectedDate = QDate 2024 3 1, entryTextEdit = '''',
              dateTextFormat = Map.empty, qDebug = []\<rparr>"

definition with_hello :: app where
  "with_hello = addEntry True True (started\<lparr>entryTextEdit := ''Hello''\<rparr>)"

text \<open>The user types again and clicks Add a second time on the same date; and the user
  clears the edit box instead.\<close>

definition typed_again :: app where
  "typed_again = with_hello\<lparr>entryTextEdit := ''Again''\<rparr>"

definition added_twice :: app where
  "added_twice = addEntry True True typed_again"

definition cleared_box :: app where
  "cleared_box = with_hello\<lparr>entryTextEdit := ''''\<rparr>"

text \<open>The entry \<open>Hello\<close> added while the query of the highlighting failed: the table
  holds the entry and no date is highlighted.\<close>

definition unmarked :: app where
  "unmarked = addEntry True False (started\<lparr>entryTextEdit := ''Hello''\<rparr>)"

section \<open>The text form of a date reads back\<close>

lemma digit_cases:
  assumes "k < (10::nat)"
  shows "k = 0 \<or> k = 1 \<or> k = 2 \<or> k = 3 \<or> k = 4 \<or> k = 5 \<or> k = 6 \<or> k = 7 \<or> k = 8 \<or> k = 9"
  using assms by arith

lemma digit_val_nth:
  assumes "k < 10"
  shows "digit_val (''0123456789'' ! k) = Some k"
  using digit_cases [OF assms] by (auto simp: digit_val_def)

lemma digit_val_digit: "digit_val (digit n) = Some (n mod 10)"
  unfolding digit_def by (rule digit_val_nth) simp

lemma number2:
  assumes "m < 100"
  shows "number 0 [digit (m div 10), digit m] = Some m"
proof -
  have "m div 10 < 10" using assms by simp
  then have "m div 10 mod 10 = m div 10" by simp
  then show ?thesis by (simp add: digit_val_digit)
qed

lemma number4:
  assumes "y < 10000"
  shows "number 0 [digit (y div 1000), digit (y div 100), digit (y div 10), digit y] = Some y"
proof -
  have e1: "y div 1000 = y div 100 div 10" and e2: "y div 100 = y div 10 div 10"
    by (simp_all add: div_mult2_eq)
  have a: "y div 1000 mod 10 = y div 1000" using assms by simp
  have b: "10 * (y div 1000) + y div 100 mod 10 = y div 100"
    unfolding e1 by simp
  have c: "10 * (y div 100) + y div 10 mod 10 = y div 10"
    unfolding e2 by simp
  show ?thesis by (simp add: digit_val_digit a b c)
qed

lemma daysInMonth_le: "daysInMonth y m \<le> 31"
  by (simp add: daysInMonth_def)

lemma fromString_toString:
  assumes "isValid d"
  shows "fromString (toString d) = Some d"
proof (cases d)
  case (QDate y m dd)
  with assms have y: "y < 10000" and m: "m < 100" and v: "isValid (QDate y m dd)"
    by simp_all
  from QDate assms have "dd \<le> daysInMonth y m" by simp
  then have dd: "dd < 100" using daysInMonth_le [of y m] by linarith
  show ?thesis
    unfolding QDate fromString_def toString.simps
    using v by (simp add: number4 [OF y] number2 [OF m] number2 [OF dd]
        del: isValid.simps number.simps)
qed

lemma toString_inject:
  assumes "isValid d" and "isValid d'" and "toString d = toString d'"
  shows "d = d'"
proof -
  have "Some d = fromString (toString d)" using assms(1) by (simp add: fromString_toString)
  also have "\<dots> = Some d'" using assms(2,3) by (simp add: fromString_toString)
  finally show ?thesis by simp
qed

lemma date_text_toString: "isValid d \<Longrightarrow> date_text (toString d)"
  by (simp add: date_text_def fromString_toString)

lemma date_text_fromString:
  assumes "date_text str" and "fromString str = Some d"
  shows "str = toString d"
  using assms by (simp add: date_text_def)

section \<open>What each slot does to the state\<close>

lemma highlight_fields [simp]:
  "diary_db (highlightDaysWithEntries ok s) = diary_db s"
  "selectedDate (highlightDaysWithEntries ok s) = selectedDate s"
  "entryTextEdit (highlightDaysWithEntries ok s) = entryTextEdit s"
  "qDebug (highlightDaysWithEntries ok s) = qDebug s"
  by (simp_all add: highlightDaysWithEntries_def Let_def split: prod.splits)

lemma highlight_formats:
  "dateTextFormat (highlightDaysWithEntries ok s) =
     fold (\<lambda>dateString. setDateTextFormat (fromString dateString) GreenBackground)
       (snd (select_date ok (diary_db s))) Map.empty"
  by (simp add: highlightDaysWithEntries_def Let_def split: prod.splits)

lemma showEntry_fields [simp]:
  "diary_db (showEntry ok d s) = diary_db s"
  "selectedDate (showEntry ok d s) = selectedDate s"
  "dateTextFormat (showEntry ok d s) = dateTextFormat s"
  "qDebug (showEntry ok d s) = qDebug s"
  by (simp_all add: showEntry_def split: option.splits)

lemma diary_addEntry:
  "diary (diary_db (addEntry True okd s)) =
     diary (diary_db s) @
       [\<lparr>diary_id = Suc (fold max (map diary_id (diary (diary_db s))) (sqlite_sequence (diary_db s))),
         diary_date = toString (selectedDate s), diary_entry = entryTextEdit s\<rparr>]"
  by (simp add: addEntry_def insert_diary_def Let_def)

lemma addEntry_failed:
  "addEntry False okd s = s\<lparr>qDebug := qDebug s @ [Error_inserting]\<rparr>"
  by (simp add: addEntry_def insert_diary_def)

lemma diary_updateEntry:
  "diary (diary_db (updateEntry True okd s)) =
     map (\<lambda>r. if diary_date r = toString (selectedDate s)
               then r\<lparr>diary_entry := entryTextEdit s\<rparr> else r) (diary (diary_db s))"
  by (simp add: updateEntry_def update_diary_def Let_def)

lemma updateEntry_failed:
  "updateEntry False okd s = s\<lparr>qDebug := qDebug s @ [Error_updating]\<rparr>"
  by (simp add: updateEntry_def update_diary_def)

lemma diary_removeEntry:
  "diary (diary_db (removeEntry True okd s)) =
     filter (\<lambda>r. diary_date r \<noteq> toString (selectedDate s)) (diary (diary_db s))"
  by (simp add: removeEntry_def delete_diary_def Let_def)

lemma removeEntry_failed:
  "removeEntry False okd s = s\<lparr>qDebug := qDebug s @ [Error_removing]\<rparr>"
  by (simp add: removeEntry_def delete_diary_def)

lemma selectedDate_slots [simp]:
  "selectedDate (addEntry ok okd s) = selectedDate s"
  "selectedDate (updateEntry ok okd s) = selectedDate s"
  "selectedDate (removeEntry ok okd s) = selectedDate s"
  by (simp_all add: addEntry_def updateEntry_def removeEntry_def Let_def split: prod.splits)

lemma dates_addEntry:
  "map diary_date (diary (diary_db (addEntry ok okd s))) =
     (if ok then map diary_date (diary (diary_db s)) @ [toString (selectedDate s)]
      else map diary_date (diary (diary_db s)))"
  by (cases ok) (simp_all add: diary_addEntry addEntry_failed)

lemma dates_updateEntry:
  "map diary_date (diary (diary_db (updateEntry ok okd s))) = map diary_date (diary (diary_db s))"
  by (cases ok) (simp_all add: diary_updateEntry updateEntry_failed comp_def)

lemma dates_removeEntry:
  "map diary_date (diary (diary_db (removeEntry ok okd s))) =
     (if ok then filter (\<lambda>x. x \<noteq> toString (selectedDate s)) (map diary_date (diary (diary_db s)))
      else map diary_date (diary (diary_db s)))"
  by (cases ok) (simp_all add: diary_removeEntry removeEntry_failed filter_map comp_def)

lemma formats_slots:
  "dateTextFormat (addEntry True okd s) =
     fold (\<lambda>dateString. setDateTextFormat (fromString dateString) GreenBackground)
       (snd (select_date okd (diary_db (addEntry True okd s)))) Map.empty"
  "dateTextFormat (updateEntry True okd s) =
     fold (\<lambda>dateString. setDateTextFormat (fromString dateString) GreenBackground)
       (snd (select_date okd (diary_db (updateEntry True okd s)))) Map.empty"
  "dateTextFormat (removeEntry True okd s) =
     fold (\<lambda>dateString. setDateTextFormat (fromString dateString) GreenBackground)
       (snd (select_date okd (diary_db (removeEntry True okd s)))) Map.empty"
  by (simp_all add: addEntry_def updateEntry_def removeEntry_def insert_diary_def
      update_diary_def delete_diary_def Let_def highlight_formats)

lemma get_entry_eq:
  "get_entry ok d dbs =
     (if ok then (case filter (\<lambda>r. diary_date r = toString d) (diary dbs) of
                    [] \<Rightarrow> None | r # _ \<Rightarrow> Some (diary_entry r))
      else None)"
  by (simp add: get_entry_def select_entry_def split: list.splits)

lemma well_formed_reachable: "reachable s \<Longrightarrow> well_formed s"
proof (induction rule: reachable.induct)
  case (first_run today ok_dates s)
  then show ?case by (auto simp: DiaryApp_def well_formed_def no_diary_def)
next
  case (next_run s0 today ok_dates s)
  then show ?case by (auto simp: DiaryApp_def well_formed_def)
next
  case (selected s d)
  then show ?case by (simp add: well_formed_def)
next
  case (activated s ok)
  then show ?case by (simp add: well_formed_def)
next
  case (typed s t)
  then show ?case by (simp add: well_formed_def)
next
  case (add_clicked s ok ok_dates)
  then show ?case by (simp add: well_formed_def dates_addEntry date_text_toString)
next
  case (update_clicked s ok ok_dates)
  then show ?case by (simp add: well_formed_def dates_updateEntry)
next
  case (remove_clicked s reply ok ok_dates)
  then show ?case
    by (cases ok)
      (auto simp: well_formed_def confirmRemoveEntry_def diary_removeEntry removeEntry_failed
        list_all_iff)
qed

lemma fold_formats:
  assumes "list_all date_text ds"
  shows "fold (\<lambda>dateString. setDateTextFormat (fromString dateString) GreenBackground) ds fm =
           (\<lambda>d. if Some d \<in> set (map fromString ds) then Some GreenBackground else fm d)"
  using assms
proof (induction ds arbitrary: fm)
  case Nil
  then show ?case by simp
next
  case (Cons x xs)
  from Cons.prems obtain d0 where d0: "fromString x = Some d0" and x: "toString d0 = x"
    by (auto simp: date_text_def split: option.splits)
  from Cons.prems have "list_all date_text xs" by simp
  from Cons.IH [OF this] d0 show ?case
    by (auto simp: fun_eq_iff)
qed

section \<open>The example states\<close>

lemma toString_examples:
  "toString (QDate 2024 3 1) = ''2024-03-01''"
  "toString (QDate 2024 3 2) = ''2024-03-02''"
  by (simp_all add: digit_def)

lemma isValid_examples: "isValid (QDate 2024 3 1)" "isValid (QDate 2024 3 2)"
  by (simp_all add: daysInMonth_def)

lemma fromString_examples:
  "fromString ''2024-03-01'' = Some (QDate 2024 3 1)"
  using fromString_toString [OF isValid_examples(1)] by (simp only: toString_examples)

lemma reachable_started: "reachable started"
proof (rule reachable.first_run)
  show "isValid (QDate 2024 3 1)" by (rule isValid_examples)
  show "DiaryApp True True (QDate 2024 3 1) no_diary = Some started"
    by (simp add: DiaryApp_def started_def highlightDaysWithEntries_def select_date_def
        no_diary_def)
qed

lemma reachable_with_hello: "reachable with_hello"
  unfolding with_hello_def
  by (rule reachable.add_clicked, rule reachable.typed, rule reachable_started)

lemma reachable_typed_again: "reachable typed_again"
  unfolding typed_again_def by (rule reachable.typed, rule reachable_with_hello)

lemma reachable_added_twice: "reachable added_twice"
  unfolding added_twice_def by (rule reachable.add_clicked, rule reachable_typed_again)

lemma reachable_cleared_box: "reachable cleared_box"
  unfolding cleared_box_def by (rule reachable.typed, rule reachable_with_hello)

lemma diary_db_with_hello:
  "diary_db with_hello =
     \<lparr>diary = [\<lparr>diary_id = 1, diary_date = ''2024-03-01'', diary_entry = ''Hello''\<rparr>],
      sqlite_sequence = 1\<rparr>"
  by (simp add: with_hello_def addEntry_def insert_diary_def started_def no_diary_def digit_def Let_def)

lemma with_hello_fields:
  "selectedDate with_hello = QDate 2024 3 1" "entryTextEdit with_hello = ''Hello''"
  by (simp_all add: with_hello_def started_def addEntry_def Let_def split: prod.splits)

lemma typed_again_fields:
  "selectedDate typed_again = QDate 2024 3 1" "entryTextEdit typed_again = ''Again''"
  "diary_db typed_again = diary_db with_hello"
  by (simp_all add: typed_again_def with_hello_fields)

lemma cleared_box_fields:
  "selectedDate cleared_box = QDate 2024 3 1" "entryTextEdit cleared_box = []"
  "diary_db cleared_box = diary_db with_hello"
  by (simp_all add: cleared_box_def with_hello_fields)

lemma diary_added_twice:
  "diary (diary_db added_twice) =
     [\<lparr>diary_id = 1, diary_date = ''2024-03-01'', diary_entry = ''Hello''\<rparr>,
      \<lparr>diary_id = 2, diary_date = ''2024-03-01'', diary_entry = ''Again''\<rparr>]"
  by (simp add: added_twice_def diary_addEntry typed_again_fields diary_db_with_hello digit_def)

lemma added_twice_fields:
  "selectedDate added_twice = QDate 2024 3 1" "entryTextEdit added_twice = ''Again''"
  by (simp_all add: added_twice_def typed_again_fields addEntry_def Let_def split: prod.splits)


lemma no_rows_filter:
  assumes "ds \<notin> dates_with_rows dbs"
  shows "filter (\<lambda>r. diary_date r = ds) (diary dbs) = []"
proof -
  have "diary_date r \<noteq> ds" if "r \<in> set (diary dbs)" for r
    using that assms by (auto simp: dates_with_rows_def)
  then show ?thesis by (simp add: filter_empty_conv)
qed

lemma rows_filter:
  assumes "ds \<in> dates_with_rows dbs"
  shows "filter (\<lambda>r. diary_date r = ds) (diary dbs) \<noteq> []"
  using assms by (auto simp: dates_with_rows_def filter_empty_conv)

section \<open>Reading an entry\<close>

text \<open>
  Claim C7. For every date with no row in the table, the read of \<open>showEntry\<close> finds no
  entry (and the edit box is cleared); and \<open>showEntry\<close>, whether a row exists or not,
  leaves the database, the formats, the selected date and the debug output as they were.
\<close>

theorem get_absent_and_pure:
  "(toString d \<notin> dates_with_rows (diary_db s) \<longrightarrow>
      get_entry ok d (diary_db s) = None \<and> entryTextEdit (showEntry ok d s) = [])
   \<and> diary_db (showEntry ok d s) = diary_db s
   \<and> dateTextFormat (showEntry ok d s) = dateTextFormat s
   \<and> selectedDate (showEntry ok d s) = selectedDate s
   \<and> qDebug (showEntry ok d s) = qDebug s"
proof -
  have "get_entry ok d (diary_db s) = None" if "toString d \<notin> dates_with_rows (diary_db s)"
  proof -
    from no_rows_filter [OF that] show ?thesis by (simp add: get_entry_eq)
  qed
  moreover from this
  have "entryTextEdit (showEntry ok d s) = []" if "toString d \<notin> dates_with_rows (diary_db s)"
    using that by (simp add: showEntry_def)
  ultimately show ?thesis by simp
qed

text \<open>The date 2024-03-02 in the state that holds one entry, for 2024-03-01.\<close>

theorem get_absent_and_pure_witness:
  "toString (QDate 2024 3 2) \<notin> dates_with_rows (diary_db with_hello)
   \<and> get_entry True (QDate 2024 3 2) (diary_db with_hello) = None
   \<and> entryTextEdit (showEntry True (QDate 2024 3 2) with_hello) = []
   \<and> diary (diary_db (showEntry True (QDate 2024 3 2) with_hello)) =
       [\<lparr>diary_id = 1, diary_date = ''2024-03-01'', diary_entry = ''Hello''\<rparr>]"
  using get_absent_and_pure [of "QDate 2024 3 2" with_hello True]
  by (simp add: dates_with_rows_def diary_db_with_hello toString_examples del: toString.simps)

section \<open>A statement that fails\<close>

text \<open>
  Claim C8. When the statement of \<open>addEntry\<close>, \<open>updateEntry\<close> or \<open>removeEntry\<close> fails,
  the slot returns after writing its error line: the state is the state before with
  that line appended to the debug output. So the database is unchanged, the formats are
  not recomputed, and the slot returns a state.
\<close>

theorem failed_statement_aborts:
  "(\<not> fst (insert_diary ok (toString (selectedDate s)) (entryTextEdit s) (diary_db s)) \<longrightarrow>
      addEntry ok okd s = s\<lparr>qDebug := qDebug s @ [Error_inserting]\<rparr>)
   \<and> (\<not> fst (update_diary ok (entryTextEdit s) (toString (selectedDate s)) (diary_db s)) \<longrightarrow>
      updateEntry ok okd s = s\<lparr>qDebug := qDebug s @ [Error_updating]\<rparr>)
   \<and> (\<not> fst (delete_diary ok (toString (selectedDate s)) (diary_db s)) \<longrightarrow>
      removeEntry ok okd s = s\<lparr>qDebug := qDebug s @ [Error_removing]\<rparr>
      \<and> confirmRemoveEntry Yes ok okd s = s\<lparr>qDebug := qDebug s @ [Error_removing]\<rparr>)"
  by (cases ok)
    (simp_all add: insert_diary_def update_diary_def delete_diary_def Let_def
      addEntry_failed updateEntry_failed removeEntry_failed confirmRemoveEntry_def)

text \<open>The three statements failing in a state whose table holds an entry that is not
  highlighted: running the highlighting would mark 2024-03-01, and after each failed
  statement the date is still unmarked.\<close>

theorem failed_statement_aborts_witness:
  "\<not> fst (insert_diary False (toString (selectedDate unmarked)) (entryTextEdit unmarked)
          (diary_db unmarked))
   \<and> \<not> fst (update_diary False (entryTextEdit unmarked) (toString (selectedDate unmarked))
          (diary_db unmarked))
   \<and> \<not> fst (delete_diary False (toString (selectedDate unmarked)) (diary_db unmarked))
   \<and> dateTextFormat unmarked (QDate 2024 3 1) = None
   \<and> dateTextFormat (highlightDaysWithEntries True unmarked) (QDate 2024 3 1) = Some GreenBackground
   \<and> diary_db (addEntry False True unmarked) = diary_db unmarked
   \<and> dateTextFormat (addEntry False True unmarked) (QDate 2024 3 1) = None
   \<and> qDebug (addEntry False True unmarked) = qDebug unmarked @ [Error_inserting]
   \<and> diary_db (updateEntry False True unmarked) = diary_db unmarked
   \<and> dateTextFormat (updateEntry False True unmarked) (QDate 2024 3 1) = None
   \<and> qDebug (updateEntry False True unmarked) = qDebug unmarked @ [Error_updating]
   \<and> diary_db (removeEntry False True unmarked) = diary_db unmarked
   \<and> dateTextFormat (removeEntry False True unmarked) (QDate 2024 3 1) = None
   \<and> qDebug (removeEntry False True unmarked) = qDebug unmarked @ [Error_removing]"
proof -
  have m: "dateTextFormat unmarked (QDate 2024 3 1) = None"
    by (simp add: unmarked_def formats_slots select_date_def)
  have "diary_db unmarked = diary_db with_hello"
    by (simp add: unmarked_def with_hello_def addEntry_def Let_def split: prod.splits)
  then have g: "dateTextFormat (highlightDaysWithEntries True unmarked) (QDate 2024 3 1) =
      Some GreenBackground"
    by (simp add: highlight_formats select_date_def diary_db_with_hello fromString_examples)
  from failed_statement_aborts [of False unmarked True] m g show ?thesis
    by (simp add: insert_diary_def update_diary_def delete_diary_def)
qed

section \<open>Updating and removing\<close>

lemma update_no_rows:
  assumes "ds \<notin> dates_with_rows dbs"
  shows "map (\<lambda>r. if diary_date r = ds then r\<lparr>diary_entry := t\<rparr> else r) (diary dbs) = diary dbs"
proof -
  have "diary_date r \<noteq> ds" if "r \<in> set (diary dbs)" for r
    using that assms by (auto simp: dates_with_rows_def)
  then show ?thesis by (simp add: map_idI)
qed

lemma delete_no_rows:
  assumes "ds \<notin> dates_with_rows dbs"
  shows "filter (\<lambda>r. diary_date r \<noteq> ds) (diary dbs) = diary dbs"
proof -
  have "diary_date r \<noteq> ds" if "r \<in> set (diary dbs)" for r
    using that assms by (auto simp: dates_with_rows_def)
  then show ?thesis by (simp add: filter_id_conv)
qed

lemma qDebug_slots:
  "qDebug (addEntry True okd s) = qDebug s @ [Added_for (toString (selectedDate s))]"
  "qDebug (updateEntry True okd s) = qDebug s @ [Updated_for (toString (selectedDate s))]"
  "qDebug (removeEntry True okd s) = qDebug s @ [Removed_for (toString (selectedDate s))]"
  by (simp_all add: addEntry_def updateEntry_def removeEntry_def insert_diary_def
      update_diary_def delete_diary_def Let_def)

lemma diary_db_updateEntry:
  "diary_db (updateEntry ok okd s) =
     snd (update_diary ok (entryTextEdit s) (toString (selectedDate s)) (diary_db s))"
  by (simp add: updateEntry_def Let_def split: prod.splits)

lemma diary_db_removeEntry:
  "diary_db (removeEntry ok okd s) = snd (delete_diary ok (toString (selectedDate s)) (diary_db s))"
  by (simp add: removeEntry_def Let_def split: prod.splits)

text \<open>
  Claim C3. When the selected date has no row, \<open>updateEntry\<close> leaves the database as it
  was, whether its statement executes or not, so the read of that date is still absent;
  and when the statement executes (an \<open>UPDATE\<close> that matches no row is no failure) the
  slot writes its success line, not an error line.
\<close>

theorem update_absent_no_effect:
  assumes "toString (selectedDate s) \<notin> dates_with_rows (diary_db s)"
  shows "diary_db (updateEntry ok okd s) = diary_db s
    \<and> get_entry okg (selectedDate s) (diary_db (updateEntry ok okd s)) = None
    \<and> qDebug (updateEntry True okd s) = qDebug s @ [Updated_for (toString (selectedDate s))]"
proof -
  have db: "diary_db (updateEntry ok okd s) = diary_db s"
    by (simp add: diary_db_updateEntry update_diary_def update_no_rows [OF assms])
  have "get_entry okg (selectedDate s) (diary_db s) = None"
    by (simp add: get_entry_eq no_rows_filter [OF assms])
  with db show ?thesis by (simp add: qDebug_slots)
qed

text \<open>
  The scenario of the specification: an update for 2024-03-02 with text \<open>X\<close> in a table
  that holds an entry for 2024-03-01 only.
\<close>

theorem update_absent_no_effect_witness:
  "toString (selectedDate (with_hello\<lparr>selectedDate := QDate 2024 3 2, entryTextEdit := ''X''\<rparr>))
     \<notin> dates_with_rows (diary_db (with_hello\<lparr>selectedDate := QDate 2024 3 2, entryTextEdit := ''X''\<rparr>))
   \<and> diary (diary_db (updateEntry True True
        (with_hello\<lparr>selectedDate := QDate 2024 3 2, entryTextEdit := ''X''\<rparr>))) =
       [\<lparr>diary_id = 1, diary_date = ''2024-03-01'', diary_entry = ''Hello''\<rparr>]
   \<and> get_entry True (QDate 2024 3 2) (diary_db (updateEntry True True
        (with_hello\<lparr>selectedDate := QDate 2024 3 2, entryTextEdit := ''X''\<rparr>))) = None"
proof -
  let ?s = "with_hello\<lparr>selectedDate := QDate 2024 3 2, entryTextEdit := ''X''\<rparr>"
  have h: "toString (selectedDate ?s) \<notin> dates_with_rows (diary_db ?s)"
    by (simp add: dates_with_rows_def diary_db_with_hello toString_examples del: toString.simps)
  from update_absent_no_effect [OF h, of True True True] h show ?thesis
    by (simp add: diary_db_with_hello get_entry_eq digit_def)
qed

text \<open>
  Claim C5. After \<open>removeEntry\<close> whose statement executed, the read of the selected date
  is absent and the date is not among the dates that \<open>SELECT date FROM diary\<close> returns.
  When the date had no row, the database is unchanged, and the slot writes its success
  line, not an error line.
\<close>

theorem remove_then_absent:
  "get_entry okg (selectedDate s) (diary_db (removeEntry True okd s)) = None
   \<and> toString (selectedDate s) \<notin> set (snd (select_date okl (diary_db (removeEntry True okd s))))
   \<and> (toString (selectedDate s) \<notin> dates_with_rows (diary_db s) \<longrightarrow>
        diary_db (removeEntry ok okd s) = diary_db s
        \<and> qDebug (removeEntry True okd s) = qDebug s @ [Removed_for (toString (selectedDate s))])"
proof -
  have "filter (\<lambda>r. diary_date r = toString (selectedDate s))
          (diary (diary_db (removeEntry True okd s))) = []"
    by (simp add: diary_removeEntry filter_empty_conv)
  then have a: "get_entry okg (selectedDate s) (diary_db (removeEntry True okd s)) = None"
    by (simp add: get_entry_eq)
  have b: "toString (selectedDate s) \<notin> set (snd (select_date okl (diary_db (removeEntry True okd s))))"
    by (simp add: select_date_def dates_removeEntry)
  have c: "diary_db (removeEntry ok okd s) = diary_db s"
    if "toString (selectedDate s) \<notin> dates_with_rows (diary_db s)"
    by (simp add: diary_db_removeEntry delete_diary_def delete_no_rows [OF that])
  from a b c show ?thesis by (simp add: qDebug_slots)
qed

text \<open>
  Removing the entry of 2024-03-01, and removing it again when it is gone.
\<close>

theorem remove_then_absent_witness:
  "get_entry True (QDate 2024 3 1) (diary_db with_hello) = Some ''Hello''
   \<and> get_entry True (QDate 2024 3 1) (diary_db (removeEntry True True with_hello)) = None
   \<and> ''2024-03-01'' \<notin> set (snd (select_date True (diary_db (removeEntry True True with_hello))))
   \<and> toString (selectedDate (removeEntry True True with_hello))
        \<notin> dates_with_rows (diary_db (removeEntry True True with_hello))
   \<and> diary_db (removeEntry True True (removeEntry True True with_hello)) =
       diary_db (removeEntry True True with_hello)"
proof -
  let ?s = "removeEntry True True with_hello"
  have h: "toString (selectedDate ?s) \<notin> dates_with_rows (diary_db ?s)"
    by (simp add: dates_with_rows_def dates_removeEntry)
  from remove_then_absent [of True with_hello True True True]
    remove_then_absent [of True ?s True True True] h
  show ?thesis
    by (simp add: with_hello_fields get_entry_eq diary_db_with_hello digit_def)
qed


section \<open>Updating an existing entry\<close>

lemma filter_updated:
  "filter (\<lambda>r. diary_date r = ds')
     (map (\<lambda>r. if diary_date r = ds then r\<lparr>diary_entry := t\<rparr> else r) rows) =
   (if ds' = ds then map (\<lambda>r. r\<lparr>diary_entry := t\<rparr>) (filter (\<lambda>r. diary_date r = ds) rows)
    else filter (\<lambda>r. diary_date r = ds') rows)"
  by (induction rows) auto

text \<open>
  Claim C4. When the selected date \<open>d\<close> has a row and the statement of \<open>updateEntry\<close>
  executes, the read of \<open>d\<close> returns the text of the edit box; for every other valid date
  \<open>d'\<close> the rows of \<open>d'\<close> are the rows it had, and the read of \<open>d'\<close> returns what it
  returned before.
\<close>

theorem update_existing:
  assumes "toString (selectedDate s) \<in> dates_with_rows (diary_db s)"
    and "isValid (selectedDate s)" and "isValid d'" and "d' \<noteq> selectedDate s"
  shows "get_entry True (selectedDate s) (diary_db (updateEntry True okd s)) = Some (entryTextEdit s)
    \<and> filter (\<lambda>r. diary_date r = toString d') (diary (diary_db (updateEntry True okd s))) =
        filter (\<lambda>r. diary_date r = toString d') (diary (diary_db s))
    \<and> get_entry okg d' (diary_db (updateEntry True okd s)) = get_entry okg d' (diary_db s)"
proof -
  let ?ds = "toString (selectedDate s)"
  from rows_filter [OF assms(1)]
  obtain r rs where rows: "filter (\<lambda>r. diary_date r = ?ds) (diary (diary_db s)) = r # rs"
    by (cases "filter (\<lambda>r. diary_date r = ?ds) (diary (diary_db s))") auto
  have a: "get_entry True (selectedDate s) (diary_db (updateEntry True okd s)) = Some (entryTextEdit s)"
    by (simp add: get_entry_eq diary_updateEntry filter_updated rows)
  have "toString d' \<noteq> ?ds"
    using toString_inject [OF assms(3) assms(2)] assms(4) by blast
  then have b: "filter (\<lambda>r. diary_date r = toString d') (diary (diary_db (updateEntry True okd s))) =
        filter (\<lambda>r. diary_date r = toString d') (diary (diary_db s))"
    by (simp add: diary_updateEntry filter_updated)
  then have c: "get_entry okg d' (diary_db (updateEntry True okd s)) = get_entry okg d' (diary_db s)"
    by (simp add: get_entry_eq)
  from a b c show ?thesis by blast
qed

text \<open>
  The entry \<open>Hello\<close> of 2024-03-01 updated to \<open>Again\<close>; the other date is 2024-03-02.
\<close>

theorem update_existing_witness:
  "toString (selectedDate typed_again) \<in> dates_with_rows (diary_db typed_again)
   \<and> isValid (selectedDate typed_again) \<and> isValid (QDate 2024 3 2)
   \<and> QDate 2024 3 2 \<noteq> selectedDate typed_again
   \<and> get_entry True (QDate 2024 3 1) (diary_db typed_again) = Some ''Hello''
   \<and> get_entry True (QDate 2024 3 1) (diary_db (updateEntry True True typed_again)) = Some ''Again''
   \<and> get_entry True (QDate 2024 3 2) (diary_db (updateEntry True True typed_again)) =
       get_entry True (QDate 2024 3 2) (diary_db typed_again)"
proof -
  have h1: "toString (selectedDate typed_again) \<in> dates_with_rows (diary_db typed_again)"
    by (simp add: typed_again_fields dates_with_rows_def diary_db_with_hello digit_def)
  have h2: "isValid (selectedDate typed_again)" and h3: "isValid (QDate 2024 3 2)"
    and h4: "QDate 2024 3 2 \<noteq> selectedDate typed_again"
    by (simp_all add: typed_again_fields daysInMonth_def)
  have e: "get_entry True (QDate 2024 3 1) (diary_db typed_again) = Some ''Hello''"
    by (simp add: typed_again_fields get_entry_eq diary_db_with_hello digit_def)
  from update_existing [OF h1 h2 h3 h4, of True True] h1 h2 h3 h4 e show ?thesis
    by (simp add: typed_again_fields)
qed

section \<open>Removing every row of a date; the highlighted dates\<close>

text \<open>
  Claim C9. In every reachable state, after \<open>removeEntry\<close> whose statement executed no
  row of the selected date is left, however many there were: the read of the date is
  absent, and the calendar widget holds no format for the date.
\<close>

theorem remove_deletes_every_row:
  assumes "reachable s"
  shows "filter (\<lambda>r. diary_date r = toString (selectedDate s))
           (diary (diary_db (removeEntry True okd s))) = []
    \<and> get_entry okg (selectedDate s) (diary_db (removeEntry True okd s)) = None
    \<and> dateTextFormat (removeEntry True okd s) (selectedDate s) = None"
proof -
  let ?ds = "toString (selectedDate s)" and ?s' = "removeEntry True okd s"
  have a: "filter (\<lambda>r. diary_date r = ?ds) (diary (diary_db ?s')) = []"
    by (simp add: diary_removeEntry filter_empty_conv)
  then have b: "get_entry okg (selectedDate s) (diary_db ?s') = None"
    by (simp add: get_entry_eq)
  from well_formed_reachable [OF assms]
  have wf: "list_all date_text (map diary_date (diary (diary_db s)))"
    by (simp add: well_formed_def)
  let ?dates = "snd (select_date okd (diary_db ?s'))"
  have sub: "set ?dates \<subseteq> set (map diary_date (diary (diary_db s))) - {?ds}"
    by (auto simp: select_date_def diary_removeEntry)
  with wf have texts: "list_all date_text ?dates"
    by (auto simp: list_all_iff)
  have "Some (selectedDate s) \<notin> set (map fromString ?dates)"
  proof
    assume "Some (selectedDate s) \<in> set (map fromString ?dates)"
    then obtain x where x: "x \<in> set ?dates" and fx: "fromString x = Some (selectedDate s)"
      by auto
    from texts x have "date_text x" by (simp add: list_all_iff)
    from date_text_fromString [OF this fx] have "x = ?ds" .
    with x sub show False by auto
  qed
  then have c: "dateTextFormat ?s' (selectedDate s) = None"
    by (simp only: formats_slots fold_formats [OF texts] if_False)
  from a b c show ?thesis by blast
qed


text \<open>
  The state with two rows for 2024-03-01, made by two clicks on Add.
\<close>

theorem remove_deletes_every_row_witness:
  "reachable added_twice
   \<and> length (filter (\<lambda>r. diary_date r = toString (selectedDate added_twice))
        (diary (diary_db added_twice))) = 2
   \<and> filter (\<lambda>r. diary_date r = toString (selectedDate added_twice))
        (diary (diary_db (removeEntry True True added_twice))) = []
   \<and> get_entry True (selectedDate added_twice) (diary_db (removeEntry True True added_twice)) = None
   \<and> dateTextFormat (removeEntry True True added_twice) (selectedDate added_twice) = None"
proof -
  have "length (filter (\<lambda>r. diary_date r = toString (selectedDate added_twice))
        (diary (diary_db added_twice))) = 2"
    by (simp add: added_twice_fields diary_added_twice digit_def)
  with remove_deletes_every_row [OF reachable_added_twice, of True True] reachable_added_twice
  show ?thesis by blast
qed

text \<open>
  Claim C6. In every reachable state, after \<open>highlightDaysWithEntries\<close> the calendar
  widget holds the green format for exactly the dates that the query returned, and no
  other format; the formats held before do not matter; and running it a second time on
  the result, with the same outcome of the query, changes nothing.
\<close>

theorem highlight_exact_idempotent:
  assumes "reachable s"
  shows "dateTextFormat (highlightDaysWithEntries ok s) =
           (\<lambda>d. if Some d \<in> set (map fromString (snd (select_date ok (diary_db s))))
                then Some GreenBackground else None)
    \<and> highlightDaysWithEntries ok (s\<lparr>dateTextFormat := fm\<rparr>) = highlightDaysWithEntries ok s
    \<and> highlightDaysWithEntries ok (highlightDaysWithEntries ok s) = highlightDaysWithEntries ok s"
proof -
  from well_formed_reachable [OF assms]
  have "list_all date_text (map diary_date (diary (diary_db s)))"
    by (simp add: well_formed_def)
  then have "list_all date_text (snd (select_date ok (diary_db s)))"
    by (simp add: select_date_def)
  from fold_formats [OF this]
  have a: "dateTextFormat (highlightDaysWithEntries ok s) =
           (\<lambda>d. if Some d \<in> set (map fromString (snd (select_date ok (diary_db s))))
                then Some GreenBackground else None)"
    by (simp only: highlight_formats)
  have b: "highlightDaysWithEntries ok (s\<lparr>dateTextFormat := fm\<rparr>) = highlightDaysWithEntries ok s"
    by (simp add: highlightDaysWithEntries_def Let_def split: prod.splits)
  have c: "highlightDaysWithEntries ok (highlightDaysWithEntries ok s) = highlightDaysWithEntries ok s"
    by (simp add: highlightDaysWithEntries_def Let_def split: prod.splits)
  from a b c show ?thesis by blast
qed

text \<open>
  The state with one entry: 2024-03-01 is highlighted, 2024-03-02 is not.
\<close>

theorem highlight_exact_idempotent_witness:
  "reachable with_hello
   \<and> snd (select_date True (diary_db with_hello)) = [''2024-03-01'']
   \<and> dateTextFormat (highlightDaysWithEntries True with_hello) (QDate 2024 3 1) = Some GreenBackground
   \<and> dateTextFormat (highlightDaysWithEntries True with_hello) (QDate 2024 3 2) = None
   \<and> highlightDaysWithEntries True (with_hello\<lparr>dateTextFormat := Map.empty\<rparr>) =
       highlightDaysWithEntries True with_hello
   \<and> highlightDaysWithEntries True (highlightDaysWithEntries True with_hello) =
       highlightDaysWithEntries True with_hello"
proof -
  have l: "snd (select_date True (diary_db with_hello)) = [''2024-03-01'']"
    by (simp add: select_date_def diary_db_with_hello)
  from highlight_exact_idempotent [OF reachable_with_hello, of True Map.empty] l
    reachable_with_hello
  show ?thesis by (simp add: fromString_examples)
qed


section \<open>Adding an entry\<close>

lemma insert_executes: "fst (insert_diary ok ds t dbs) = ok"
  by (simp add: insert_diary_def Let_def)

lemma get_entry_added:
  "get_entry True (selectedDate s) (diary_db (addEntry True okd s)) =
     (if toString (selectedDate s) \<in> dates_with_rows (diary_db s)
      then get_entry True (selectedDate s) (diary_db s) else Some (entryTextEdit s))"
proof (cases "toString (selectedDate s) \<in> dates_with_rows (diary_db s)")
  case True
  from rows_filter [OF this] show ?thesis
    using True by (simp add: get_entry_eq diary_addEntry split: list.splits)
next
  case False
  from no_rows_filter [OF this] show ?thesis
    using False by (simp add: get_entry_eq diary_addEntry)
qed

text \<open>
  Claim C1 says that no reachable state has two rows of the same date. The table has no
  uniqueness constraint on \<open>date\<close> and \<open>addEntry\<close> does not look for an existing row:
  two clicks on Add with the same date selected leave two rows of that date.
\<close>

theorem duplicate_rows_reachable:
  "reachable added_twice
   \<and> map diary_date (diary (diary_db added_twice)) = [''2024-03-01'', ''2024-03-01'']
   \<and> \<not> one_entry_per_date (diary_db added_twice)"
  using reachable_added_twice by (simp add: one_entry_per_date_def diary_added_twice)

text \<open>
  Claim C1, amended. From a state with at most one row per date, \<open>showEntry\<close>,
  \<open>updateEntry\<close> and \<open>confirmRemoveEntry\<close> lead to a state with at most one row per date,
  and \<open>addEntry\<close> does so exactly when its statement fails or the selected date has no
  row yet.
\<close>

theorem one_entry_per_date_kept:
  assumes "one_entry_per_date (diary_db s)"
  shows "one_entry_per_date (diary_db (showEntry okg d s))
    \<and> one_entry_per_date (diary_db (updateEntry ok okd s))
    \<and> one_entry_per_date (diary_db (confirmRemoveEntry reply ok okd s))
    \<and> one_entry_per_date (diary_db (addEntry ok okd s)) =
        (\<not> ok \<or> toString (selectedDate s) \<notin> dates_with_rows (diary_db s))"
proof -
  have a: "one_entry_per_date (diary_db (showEntry okg d s))"
    using assms by simp
  have b: "one_entry_per_date (diary_db (updateEntry ok okd s))"
    using assms by (simp add: one_entry_per_date_def dates_updateEntry)
  have c: "one_entry_per_date (diary_db (confirmRemoveEntry reply ok okd s))"
    using assms
    by (simp add: one_entry_per_date_def confirmRemoveEntry_def dates_removeEntry distinct_filter)
  have e: "one_entry_per_date (diary_db (addEntry ok okd s)) =
        (\<not> ok \<or> toString (selectedDate s) \<notin> dates_with_rows (diary_db s))"
    using assms by (auto simp: one_entry_per_date_def dates_addEntry dates_with_rows_def)
  from a b c e show ?thesis by blast
qed

text \<open>
  The state with one entry, for 2024-03-01: adding on that date breaks the property,
  adding on 2024-03-02 keeps it.
\<close>

theorem one_entry_per_date_kept_witness:
  "one_entry_per_date (diary_db typed_again)
   \<and> one_entry_per_date (diary_db (showEntry True (QDate 2024 3 2) typed_again))
   \<and> one_entry_per_date (diary_db (updateEntry True True typed_again))
   \<and> one_entry_per_date (diary_db (confirmRemoveEntry Yes True True typed_again))
   \<and> toString (selectedDate typed_again) \<in> dates_with_rows (diary_db typed_again)
   \<and> \<not> one_entry_per_date (diary_db (addEntry True True typed_again))
   \<and> toString (selectedDate (typed_again\<lparr>selectedDate := QDate 2024 3 2\<rparr>))
        \<notin> dates_with_rows (diary_db (typed_again\<lparr>selectedDate := QDate 2024 3 2\<rparr>))
   \<and> one_entry_per_date (diary_db (addEntry True True (typed_again\<lparr>selectedDate := QDate 2024 3 2\<rparr>)))"
proof -
  have h: "one_entry_per_date (diary_db typed_again)"
    by (simp add: one_entry_per_date_def typed_again_fields diary_db_with_hello)
  have h': "one_entry_per_date (diary_db (typed_again\<lparr>selectedDate := QDate 2024 3 2\<rparr>))"
    using h by simp
  have i: "toString (selectedDate typed_again) \<in> dates_with_rows (diary_db typed_again)"
    by (simp add: typed_again_fields dates_with_rows_def diary_db_with_hello digit_def)
  have j: "toString (selectedDate (typed_again\<lparr>selectedDate := QDate 2024 3 2\<rparr>))
        \<notin> dates_with_rows (diary_db (typed_again\<lparr>selectedDate := QDate 2024 3 2\<rparr>))"
    by (simp add: typed_again_fields dates_with_rows_def diary_db_with_hello digit_def)
  from one_entry_per_date_kept [OF h, of True "QDate 2024 3 2" True True Yes]
    one_entry_per_date_kept [OF h', of True "QDate 2024 3 2" True True Yes] h i j
  show ?thesis by blast
qed

text \<open>
  Claim C2 says that the read after a successful add returns the added text also when
  the date already had a row. The read takes the first row of the date, which is the
  oldest: after adding \<open>Again\<close> on the date that holds \<open>Hello\<close>, the read returns
  \<open>Hello\<close>.
\<close>

theorem add_on_existing_date_keeps_old_text:
  "selectedDate typed_again = QDate 2024 3 1
   \<and> entryTextEdit typed_again = ''Again''
   \<and> fst (insert_diary True (toString (selectedDate typed_again)) (entryTextEdit typed_again)
        (diary_db typed_again))
   \<and> get_entry True (QDate 2024 3 1) (diary_db (addEntry True True typed_again)) = Some ''Hello''
   \<and> get_entry True (selectedDate typed_again) (diary_db (addEntry True True typed_again))
        \<noteq> Some (entryTextEdit typed_again)"
  by (simp add: insert_executes typed_again_fields get_entry_eq diary_added_twice
      added_twice_def [symmetric] digit_def)

text \<open>
  Claim C2, amended. Whenever the statement of \<open>addEntry\<close> executes, the selected date
  is among the dates that \<open>SELECT date FROM diary\<close> returns afterwards; when the date had
  no row before, the read of the date returns the text of the edit box; when it had one,
  the read returns what it returned before the add.
\<close>

theorem add_then_get:
  assumes "fst (insert_diary ok (toString (selectedDate s)) (entryTextEdit s) (diary_db s))"
  shows "toString (selectedDate s) \<in> set (snd (select_date True (diary_db (addEntry ok okd s))))
    \<and> (toString (selectedDate s) \<notin> dates_with_rows (diary_db s) \<longrightarrow>
         get_entry True (selectedDate s) (diary_db (addEntry ok okd s)) = Some (entryTextEdit s))
    \<and> (toString (selectedDate s) \<in> dates_with_rows (diary_db s) \<longrightarrow>
         get_entry True (selectedDate s) (diary_db (addEntry ok okd s)) =
         get_entry True (selectedDate s) (diary_db s))"
proof -
  from assms have ok by (simp add: insert_executes)
  then show ?thesis
    by (simp add: get_entry_added select_date_def dates_addEntry)
qed

text \<open>
  The scenario of the specification: \<open>Hello\<close> added for 2024-03-01 to the empty table.
\<close>

theorem add_then_get_witness:
  "fst (insert_diary True (toString (selectedDate (started\<lparr>entryTextEdit := ''Hello''\<rparr>)))
      (entryTextEdit (started\<lparr>entryTextEdit := ''Hello''\<rparr>))
      (diary_db (started\<lparr>entryTextEdit := ''Hello''\<rparr>)))
   \<and> toString (QDate 2024 3 1) \<notin> dates_with_rows (diary_db (started\<lparr>entryTextEdit := ''Hello''\<rparr>))
   \<and> get_entry True (QDate 2024 3 1)
        (diary_db (addEntry True True (started\<lparr>entryTextEdit := ''Hello''\<rparr>))) = Some ''Hello''
   \<and> snd (select_date True (diary_db (addEntry True True (started\<lparr>entryTextEdit := ''Hello''\<rparr>)))) =
        [''2024-03-01'']"
proof -
  let ?s = "started\<lparr>entryTextEdit := ''Hello''\<rparr>"
  have h: "fst (insert_diary True (toString (selectedDate ?s)) (entryTextEdit ?s) (diary_db ?s))"
    by (simp add: insert_executes)
  have n: "toString (QDate 2024 3 1) \<notin> dates_with_rows (diary_db ?s)"
    by (simp add: dates_with_rows_def started_def no_diary_def)
  have l: "snd (select_date True (diary_db (addEntry True True ?s))) = [''2024-03-01'']"
    by (simp add: select_date_def with_hello_def [symmetric] diary_db_with_hello)
  from add_then_get [OF h, of True] h n l show ?thesis
    by (simp add: started_def)
qed

text \<open>
  Claim C10 says that after adding the empty text on any date the read returns the empty
  text. On a date that already holds \<open>Hello\<close>, the read still returns \<open>Hello\<close>.
\<close>

theorem add_empty_on_existing_date_keeps_old_text:
  "selectedDate cleared_box = QDate 2024 3 1
   \<and> entryTextEdit cleared_box = []
   \<and> fst (insert_diary True (toString (selectedDate cleared_box)) [] (diary_db cleared_box))
   \<and> get_entry True (QDate 2024 3 1) (diary_db (addEntry True True cleared_box)) = Some ''Hello''
   \<and> get_entry True (QDate 2024 3 1) (diary_db (addEntry True True cleared_box)) \<noteq> Some []"
  by (simp add: insert_executes cleared_box_fields get_entry_eq diary_addEntry
      diary_db_with_hello digit_def)

text \<open>
  Claim C10, amended. \<open>addEntry\<close> has no check of the text: with the empty edit box and
  a valid selected date, the statement executes whenever the engine does not fail, the
  table gets one more row, which has the selected date and the empty text, the date is
  among the dates listed, and the date is highlighted exactly when the query of
  \<open>highlightDaysWithEntries\<close> executes (when that query fails, the marks are cleared and
  none is set); when the date had no row before, the read returns the empty text, present
  and not absent.
\<close>

theorem add_empty_text:
  assumes "entryTextEdit s = []" and "isValid (selectedDate s)"
  shows "fst (insert_diary True (toString (selectedDate s)) (entryTextEdit s) (diary_db s))
    \<and> length (diary (diary_db (addEntry True okd s))) = Suc (length (diary (diary_db s)))
    \<and> diary_date (last (diary (diary_db (addEntry True okd s)))) = toString (selectedDate s)
    \<and> diary_entry (last (diary (diary_db (addEntry True okd s)))) = []
    \<and> toString (selectedDate s) \<in> set (snd (select_date True (diary_db (addEntry True okd s))))
    \<and> dateTextFormat (addEntry True okd s) (selectedDate s) =
        (if okd then Some GreenBackground else None)
    \<and> (toString (selectedDate s) \<notin> dates_with_rows (diary_db s) \<longrightarrow>
         get_entry True (selectedDate s) (diary_db (addEntry True okd s)) = Some [])"
proof -
  have a: "length (diary (diary_db (addEntry True okd s))) = Suc (length (diary (diary_db s)))
    \<and> diary_date (last (diary (diary_db (addEntry True okd s)))) = toString (selectedDate s)
    \<and> diary_entry (last (diary (diary_db (addEntry True okd s)))) = []"
    by (simp add: diary_addEntry assms(1))
  have b: "toString (selectedDate s) \<in> set (snd (select_date True (diary_db (addEntry True okd s))))"
    by (simp add: select_date_def dates_addEntry)
  have c: "dateTextFormat (addEntry True okd s) (selectedDate s) =
        (if okd then Some GreenBackground else None)"
    by (cases okd)
      (simp_all add: formats_slots select_date_def dates_addEntry
        fromString_toString [OF assms(2)] del: toString.simps)
  have e: "get_entry True (selectedDate s) (diary_db (addEntry True okd s)) = Some []"
    if "toString (selectedDate s) \<notin> dates_with_rows (diary_db s)"
    using that by (simp add: get_entry_added assms(1))
  from a b c e show ?thesis by (simp add: insert_executes)
qed

text \<open>
  The empty text added for 2024-03-01 to the empty table, once with the query of the
  highlighting executing and once with that query failing.
\<close>

theorem add_empty_text_witness:
  "entryTextEdit started = [] \<and> isValid (selectedDate started)
   \<and> toString (selectedDate started) \<notin> dates_with_rows (diary_db started)
   \<and> map diary_entry (diary (diary_db (addEntry True True started))) = [[]]
   \<and> get_entry True (QDate 2024 3 1) (diary_db (addEntry True True started)) = Some []
   \<and> snd (select_date True (diary_db (addEntry True True started))) = [''2024-03-01'']
   \<and> dateTextFormat (addEntry True True started) (QDate 2024 3 1) = Some GreenBackground
   \<and> snd (select_date True (diary_db (addEntry True False started))) = [''2024-03-01'']
   \<and> dateTextFormat (addEntry True False started) (QDate 2024 3 1) = None"
proof -
  have h1: "entryTextEdit started = []" and h2: "isValid (selectedDate started)"
    by (simp_all add: started_def daysInMonth_def)
  have n: "toString (selectedDate started) \<notin> dates_with_rows (diary_db started)"
    by (simp add: dates_with_rows_def started_def no_diary_def)
  have l: "map diary_entry (diary (diary_db (addEntry True True started))) = [[]]"
    "snd (select_date True (diary_db (addEntry True True started))) = [''2024-03-01'']"
    "snd (select_date True (diary_db (addEntry True False started))) = [''2024-03-01'']"
    by (simp_all add: select_date_def diary_addEntry started_def no_diary_def digit_def)
  from add_empty_text [OF h1 h2, of True] add_empty_text [OF h1 h2, of False] h1 h2 n l
  show ?thesis
    by (simp add: started_def)
qed

end
